theory Spec2Isabelle
  imports Main
begin

section \<open>Python values\<close>

text \<open>
  A Python \<open>float\<close> is an IEEE-754 binary64 number.  \<open>Finite sg m e\<close> stands for
  \<open>(-1)^sg * m * 2^e\<close>; the two zeros are \<open>Finite False 0 0\<close> and \<open>Finite True 0 0\<close>.
  Every operation below returns its result with an odd mantissa (or the mantissa 0 and
  the exponent 0), so that equal numbers are equal terms.
\<close>

datatype pyfloat = Finite bool nat int | Infinity bool | NaN

text \<open>
  The values the program stores and returns: the sample data holds integers, the
  validated request bodies hold floats, and every dataset is a list or a dict of those.
  A dict is the list of its items in insertion order.
\<close>

datatype pyval =
    PInt int
  | PFloat pyfloat
  | PStr string
  | PList "pyval list"
  | PDict "(string \<times> pyval) list"

datatype error = ValueError | KeyError | TypeError | OverflowError | RuntimeError | TransportError

section \<open>Data models\<close>

record CloudCost =
  month :: string
  cost :: pyfloat

record ServiceUsage =
  labels :: "string list"
  data :: "pyfloat list"

record CostEstimationParams =
  instanceCount :: int
  hoursPerDay :: int
  daysPerMonth :: int
  costPerHour :: pyfloat

text \<open>\<open>BaseModel.dict()\<close>: the fields in declaration order.\<close>

definition CloudCost_dict :: "CloudCost \<Rightarrow> pyval" where
  "CloudCost_dict c = PDict [(''month'', PStr (month c)), (''cost'', PFloat (cost c))]"

definition ServiceUsage_dict :: "ServiceUsage \<Rightarrow> pyval" where
  "ServiceUsage_dict u =
     PDict [(''labels'', PList (map PStr (labels u))), (''data'', PList (map PFloat (data u)))]"

section \<open>Process state\<close>

text \<open>
  A \<open>WebSocket\<close> object is known by its identity only.  The module-level variables and
  the manager's list are the fields of the state.  \<open>accepted\<close> lists the sockets whose
  handshake has been accepted, the state every \<open>WebSocket\<close> object keeps of itself.
  Two more fields stand for the world outside the process: \<open>closed\<close> lists the sockets
  whose transport is gone (a send on them raises), and \<open>trace\<close> is the history of the
  effects of the process, in program order: each rebinding of a dataset and each message
  a socket has been sent.
\<close>

type_synonym websocket = nat

datatype event = Replaced string pyval | Sent websocket pyval

record app_state =
  cloud_costs :: "pyval list"
  service_usage :: pyval
  daily_costs :: pyval
  resources :: "pyval list"
  active_connections :: "websocket list"
  accepted :: "websocket list"
  closed :: "websocket list"
  trace :: "event list"

definition sample_cloud_costs :: "pyval list" where
  "sample_cloud_costs =
     [PDict [(''month'', PStr ''January''), (''cost'', PInt 65)],
      PDict [(''month'', PStr ''February''), (''cost'', PInt 59)],
      PDict [(''month'', PStr ''March''), (''cost'', PInt 80)],
      PDict [(''month'', PStr ''April''), (''cost'', PInt 81)],
      PDict [(''month'', PStr ''May''), (''cost'', PInt 56)],
      PDict [(''month'', PStr ''June''), (''cost'', PInt 55)],
      PDict [(''month'', PStr ''July''), (''cost'', PInt 40)]]"

definition sample_service_usage :: pyval where
  "sample_service_usage =
     PDict [(''labels'', PList (map PStr [''Compute'', ''Storage'', ''Networking'', ''Database'', ''Analytics''])),
            (''data'', PList (map PInt [100, 150, 100, 200, 250]))]"

definition sample_daily_costs :: pyval where
  "sample_daily_costs =
     PDict [(''labels'', PList (map PStr [''Mon'', ''Tue'', ''Wed'', ''Thu'', ''Fri'', ''Sat'', ''Sun''])),
            (''data'', PList (map PInt [120, 190, 30, 50, 20, 30, 150]))]"

definition sample_resources :: "pyval list" where
  "sample_resources =
     [PDict [(''name'', PStr ''Web Server''), (''type'', PStr ''EC2''), (''cost'', PInt 100)],
      PDict [(''name'', PStr ''Database''), (''type'', PStr ''RDS''), (''cost'', PInt 200)],
      PDict [(''name'', PStr ''Storage''), (''type'', PStr ''S3''), (''cost'', PInt 50)]]"

text \<open>The state once the module has been loaded: the sample data and an empty manager.\<close>

definition initial_state :: app_state where
  "initial_state =
     \<lparr>cloud_costs = sample_cloud_costs,
      service_usage = sample_service_usage,
      daily_costs = sample_daily_costs,
      resources = sample_resources,
      active_connections = [],
      accepted = [],
      closed = [],
      trace = []\<rparr>"

section \<open>Read endpoints\<close>

text \<open>
  Every handler takes the state and returns its outcome (the exception raised, or the
  value returned) with the state it leaves behind.
\<close>

type_synonym 'a outcome = "(error + 'a) \<times> app_state"

definition get_cloud_costs :: "app_state \<Rightarrow> pyval outcome" where
  "get_cloud_costs s = (Inr (PList (cloud_costs s)), s)"

definition get_service_usage :: "app_state \<Rightarrow> pyval outcome" where
  "get_service_usage s = (Inr (service_usage s), s)"

definition get_daily_costs :: "app_state \<Rightarrow> pyval outcome" where
  "get_daily_costs s = (Inr (daily_costs s), s)"

definition get_resources :: "app_state \<Rightarrow> pyval outcome" where
  "get_resources s = (Inr (PList (resources s)), s)"

section \<open>Float arithmetic\<close>

text \<open>\<open>int.bit_length\<close>: the number of binary digits of a natural number.\<close>

fun bit_length :: "nat \<Rightarrow> nat" where
  "bit_length n = (if n = 0 then 0 else Suc (bit_length (n div 2)))"

declare bit_length.simps [simp del]

text \<open>\<open>m / 2^k\<close> rounded to the nearest integer, a tie to the even one.\<close>

definition round_shift :: "nat \<Rightarrow> nat \<Rightarrow> nat" where
  "round_shift m k =
     (let q = m div 2 ^ k; r = m mod 2 ^ k; h = 2 ^ (k - 1)
      in if k = 0 then m else if h < r \<or> (r = h \<and> odd q) then q + 1 else q)"

text \<open>The same number with an odd mantissa.\<close>

fun normal_form :: "nat \<Rightarrow> int \<Rightarrow> nat \<times> int" where
  "normal_form m e =
     (if m = 0 then (0, 0)
      else if even m then normal_form (m div 2) (e + 1)
      else (m, e))"

declare normal_form.simps [simp del]

text \<open>
  The binary64 number nearest to \<open>m * 2^e\<close>, with the sign \<open>sg\<close>: at most 53 bits of
  mantissa, no bit below \<open>2^-1074\<close>, ties to even, and infinity once the rounded number
  reaches \<open>2^1024\<close>.
\<close>

definition round_binary64 :: "bool \<Rightarrow> nat \<Rightarrow> int \<Rightarrow> pyfloat" where
  "round_binary64 sg m e =
     (let k = max (int (bit_length m) - 53) (- 1074 - e);
          m' = (if 0 < k then round_shift m (nat k) else m);
          e' = (if 0 < k then e + k else e)
      in if m' = 0 then Finite sg 0 0
         else if 1024 < int (bit_length m') + e' then Infinity sg
         else case normal_form m' e' of (m'', e'') \<Rightarrow> Finite sg m'' e'')"

text \<open>
  The conversion of an \<open>int\<close> operand of a float operation: correctly rounded, and an
  OverflowError when the integer is beyond the range of the floats.
\<close>

definition float_of_int :: "int \<Rightarrow> error + pyfloat" where
  "float_of_int i =
     (case round_binary64 (i < 0) (nat \<bar>i\<bar>) 0 of
        Infinity sg \<Rightarrow> Inl OverflowError
      | f \<Rightarrow> Inr f)"

text \<open>Float multiplication: it never raises; it overflows to an infinity.\<close>

fun float_mul :: "pyfloat \<Rightarrow> pyfloat \<Rightarrow> pyfloat" where
  "float_mul (Finite s m e) (Finite t n f) = round_binary64 (s \<noteq> t) (m * n) (e + f)"
| "float_mul (Finite s m e) (Infinity t) = (if m = 0 then NaN else Infinity (s \<noteq> t))"
| "float_mul (Infinity s) (Finite t n f) = (if n = 0 then NaN else Infinity (s \<noteq> t))"
| "float_mul (Infinity s) (Infinity t) = Infinity (s \<noteq> t)"
| "float_mul NaN y = NaN"
| "float_mul x NaN = NaN"

section \<open>The compute endpoint\<close>

text \<open>
  \<open>a * b * c * d\<close> associates to the left: two integer products, then an integer
  times a float, for which the integer is converted to a float first.
\<close>

definition estimate_cost :: "CostEstimationParams \<Rightarrow> app_state \<Rightarrow> pyval outcome" where
  "estimate_cost params s =
     (case float_of_int (instanceCount params * hoursPerDay params * daysPerMonth params) of
        Inl e \<Rightarrow> (Inl e, s)
      | Inr n \<Rightarrow>
          (let monthly_cost = float_mul n (costPerHour params)
           in (Inr (PDict [(''estimatedMonthlyCost'', PFloat monthly_cost)]), s)))"

section \<open>Dates\<close>

text \<open>
  \<open>datetime.strptime\<close> with the two formats the program uses.  Neither format has a
  time directive, so hour, minute and second are always 0 and a \<open>datetime\<close> is
  compared by year, month and day.  Strings are ASCII here, and the month names are
  those of the C locale.
\<close>

record datetime =
  year :: nat
  month_no :: nat
  day :: nat

definition datetime_le :: "datetime \<Rightarrow> datetime \<Rightarrow> bool" where
  "datetime_le a b =
     (year a < year b \<or>
      (year a = year b \<and> (month_no a < month_no b \<or>
        (month_no a = month_no b \<and> day a \<le> day b))))"

definition digit_val :: "char \<Rightarrow> nat option" where
  "digit_val c = map_of (zip ''0123456789'' [0, 1, 2, 3, 4, 5, 6, 7, 8, 9]) c"

text \<open>\<open>%Y\<close> is the pattern \<open>\d\d\d\d\<close>.\<close>

fun parse_Y :: "string \<Rightarrow> nat option" where
  "parse_Y [a, b, c, d] =
     (case (digit_val a, digit_val b, digit_val c, digit_val d) of
        (Some p, Some q, Some r, Some t) \<Rightarrow> Some (1000 * p + 100 * q + 10 * r + t)
      | _ \<Rightarrow> None)"
| "parse_Y _ = None"

text \<open>\<open>%m\<close> is the pattern \<open>1[0-2]|0[1-9]|[1-9]\<close>.\<close>

fun parse_m :: "string \<Rightarrow> nat option" where
  "parse_m [a] = (case digit_val a of Some p \<Rightarrow> if 1 \<le> p then Some p else None | None \<Rightarrow> None)"
| "parse_m [a, b] =
     (case (digit_val a, digit_val b) of
        (Some p, Some q) \<Rightarrow>
          if p = 1 \<and> q \<le> 2 then Some (10 + q)
          else if p = 0 \<and> 1 \<le> q then Some q
          else None
      | _ \<Rightarrow> None)"
| "parse_m _ = None"

text \<open>\<open>%d\<close> is the pattern \<open>3[0-1]|[1-2]\d|0[1-9]|[1-9]| [1-9]\<close>.\<close>

fun parse_d :: "string \<Rightarrow> nat option" where
  "parse_d [a] = (case digit_val a of Some p \<Rightarrow> if 1 \<le> p then Some p else None | None \<Rightarrow> None)"
| "parse_d [a, b] =
     (case (digit_val a, digit_val b) of
        (Some p, Some q) \<Rightarrow>
          if p = 3 \<and> q \<le> 1 then Some (30 + q)
          else if 1 \<le> p \<and> p \<le> 2 then Some (10 * p + q)
          else if p = 0 \<and> 1 \<le> q then Some q
          else None
      | (None, Some q) \<Rightarrow> if a = CHR '' '' \<and> 1 \<le> q then Some q else None
      | _ \<Rightarrow> None)"
| "parse_d _ = None"

definition is_leap :: "nat \<Rightarrow> bool" where
  "is_leap y = (y mod 4 = 0 \<and> (y mod 100 \<noteq> 0 \<or> y mod 400 = 0))"

definition days_in_month :: "nat \<Rightarrow> nat \<Rightarrow> nat" where
  "days_in_month y m =
     (if m = 2 then (if is_leap y then 29 else 28)
      else if m = 4 \<or> m = 6 \<or> m = 9 \<or> m = 11 then 30
      else 31)"

text \<open>
  The \<open>datetime\<close> constructor: it raises ValueError for the year 0 and for a day the
  month does not have.
\<close>

definition mk_datetime :: "nat \<Rightarrow> nat \<Rightarrow> nat \<Rightarrow> error + datetime" where
  "mk_datetime y m d =
     (if 1 \<le> y \<and> y \<le> 9999 \<and> 1 \<le> m \<and> m \<le> 12 \<and> 1 \<le> d \<and> d \<le> days_in_month y m
      then Inr \<lparr>year = y, month_no = m, day = d\<rparr>
      else Inl ValueError)"

text \<open>
  \<open>datetime.strptime(s, "%Y-%m-%d")\<close>: the whole string has to match; the year is
  the first four characters, the month runs up to the next hyphen, the day is the rest.
\<close>

definition strptime_Ymd :: "string \<Rightarrow> error + datetime" where
  "strptime_Ymd s =
     (if length s < 5 \<or> s ! 4 \<noteq> CHR ''-'' then Inl ValueError
      else
        let rest = drop 5 s;
            ms = takeWhile (\<lambda>c. c \<noteq> CHR ''-'') rest;
            tl = dropWhile (\<lambda>c. c \<noteq> CHR ''-'') rest
        in if tl = [] then Inl ValueError
           else case (parse_Y (take 4 s), parse_m ms, parse_d (drop 1 tl)) of
                  (Some y, Some m, Some d) \<Rightarrow> mk_datetime y m d
                | _ \<Rightarrow> Inl ValueError)"

definition ascii_lower :: "char \<Rightarrow> char" where
  "ascii_lower c =
     (case map_of (zip ''ABCDEFGHIJKLMNOPQRSTUVWXYZ'' ''abcdefghijklmnopqrstuvwxyz'') c of
        Some l \<Rightarrow> l
      | None \<Rightarrow> c)"

definition month_names :: "(string \<times> nat) list" where
  "month_names =
     [(''january'', 1), (''february'', 2), (''march'', 3), (''april'', 4), (''may'', 5),
      (''june'', 6), (''july'', 7), (''august'', 8), (''september'', 9), (''october'', 10),
      (''november'', 11), (''december'', 12)]"

text \<open>
  \<open>datetime.strptime(v, "%B")\<close>: a full month name, matched without regard to case;
  the year defaults to 1900 and the day to 1.  An argument that is not a \<open>str\<close> is a
  TypeError.
\<close>

fun strptime_B :: "pyval \<Rightarrow> error + datetime" where
  "strptime_B (PStr s) =
     (case map_of month_names (map ascii_lower s) of
        None \<Rightarrow> Inl ValueError
      | Some m \<Rightarrow> Inr \<lparr>year = 1900, month_no = m, day = 1\<rparr>)"
| "strptime_B _ = Inl TypeError"

section \<open>The filtered read\<close>

text \<open>\<open>d[key]\<close> on a stored value.\<close>

fun subscript :: "pyval \<Rightarrow> string \<Rightarrow> error + pyval" where
  "subscript (PDict items) key =
     (case map_of items key of None \<Rightarrow> Inl KeyError | Some v \<Rightarrow> Inr v)"
| "subscript _ key = Inl TypeError"

text \<open>
  The list comprehension: every record's month is parsed, whatever the bounds are, and
  the first exception ends the comprehension.
\<close>

fun filter_costs :: "datetime \<Rightarrow> datetime \<Rightarrow> pyval list \<Rightarrow> error + pyval list" where
  "filter_costs start end' [] = Inr []"
| "filter_costs start end' (cost' # rest) =
     (case subscript cost' ''month'' of
        Inl e \<Rightarrow> Inl e
      | Inr v \<Rightarrow>
          (case strptime_B v of
             Inl e \<Rightarrow> Inl e
           | Inr d \<Rightarrow>
               (case filter_costs start end' rest of
                  Inl e \<Rightarrow> Inl e
                | Inr kept \<Rightarrow>
                    Inr (if datetime_le start d \<and> datetime_le d end' then cost' # kept
                         else kept))))"

definition get_filtered_costs :: "string \<Rightarrow> string \<Rightarrow> app_state \<Rightarrow> pyval outcome" where
  "get_filtered_costs start_date end_date s =
     (case strptime_Ymd start_date of
        Inl e \<Rightarrow> (Inl e, s)
      | Inr start \<Rightarrow>
          (case strptime_Ymd end_date of
             Inl e \<Rightarrow> (Inl e, s)
           | Inr end' \<Rightarrow>
               (case filter_costs start end' (cloud_costs s) of
                  Inl e \<Rightarrow> (Inl e, s)
                | Inr filtered_costs \<Rightarrow> (Inr (PList filtered_costs), s))))"

section \<open>The connection manager\<close>

text \<open>
  \<open>websocket.accept()\<close> and \<open>connection.send_json(message)\<close> are calls into the
  framework.  A \<open>WebSocket\<close> accepts its handshake once: \<open>accept\<close> on a socket that
  has been accepted raises RuntimeError, since the accept message is refused in the
  connected state.  On a socket that has not, the handshake raises when the transport is
  gone, and otherwise the socket is accepted from then on.  \<open>send_json\<close> on a socket
  whose transport is gone raises; otherwise it delivers the message, which the trace
  records.
\<close>

definition accept :: "websocket \<Rightarrow> app_state \<Rightarrow> unit outcome" where
  "accept websocket s =
     (if websocket \<in> set (accepted s) then (Inl RuntimeError, s)
      else if websocket \<in> set (closed s) then (Inl TransportError, s)
      else (Inr (), s\<lparr>accepted := accepted s @ [websocket]\<rparr>))"

definition send_json :: "websocket \<Rightarrow> pyval \<Rightarrow> app_state \<Rightarrow> unit outcome" where
  "send_json connection message s =
     (if connection \<in> set (closed s) then (Inl TransportError, s)
      else (Inr (), s\<lparr>trace := trace s @ [Sent connection message]\<rparr>))"

definition connect :: "websocket \<Rightarrow> app_state \<Rightarrow> unit outcome" where
  "connect websocket s =
     (case accept websocket s of
        (Inl e, s') \<Rightarrow> (Inl e, s')
      | (Inr _, s') \<Rightarrow>
          (Inr (), s'\<lparr>active_connections := active_connections s' @ [websocket]\<rparr>))"

text \<open>\<open>list.remove\<close> deletes the first occurrence and raises ValueError when there is none.\<close>

definition disconnect :: "websocket \<Rightarrow> app_state \<Rightarrow> unit outcome" where
  "disconnect websocket s =
     (if websocket \<in> set (active_connections s)
      then (Inr (), s\<lparr>active_connections := remove1 websocket (active_connections s)\<rparr>)
      else (Inl ValueError, s))"

text \<open>
  The \<open>for\<close> loop of \<open>broadcast\<close>: one send per entry, in list order.  There is no
  \<open>try\<close> around the send, so the first exception leaves the loop and the function.
\<close>

fun broadcast_loop :: "websocket list \<Rightarrow> pyval \<Rightarrow> app_state \<Rightarrow> unit outcome" where
  "broadcast_loop [] message s = (Inr (), s)"
| "broadcast_loop (connection # rest) message s =
     (case send_json connection message s of
        (Inl e, s') \<Rightarrow> (Inl e, s')
      | (Inr _, s') \<Rightarrow> broadcast_loop rest message s')"

definition broadcast :: "pyval \<Rightarrow> app_state \<Rightarrow> unit outcome" where
  "broadcast message s = broadcast_loop (active_connections s) message s"

section \<open>Write endpoints\<close>

text \<open>
  Both handlers rebind their global first and broadcast the new value afterwards; an
  exception of the broadcast leaves the handler after the rebinding.
\<close>

definition update_cloud_costs :: "CloudCost list \<Rightarrow> app_state \<Rightarrow> pyval outcome" where
  "update_cloud_costs updated_costs s =
     (let new_costs = map CloudCost_dict updated_costs;
          s1 = s\<lparr>cloud_costs := new_costs,
                 trace := trace s @ [Replaced ''cloud_costs'' (PList new_costs)]\<rparr>
      in case broadcast (PDict [(''type'', PStr ''cloud_costs''),
                                (''data'', PList (cloud_costs s1))]) s1 of
           (Inl e, s2) \<Rightarrow> (Inl e, s2)
         | (Inr _, s2) \<Rightarrow>
             (Inr (PDict [(''message'', PStr ''Cloud costs updated successfully'')]), s2))"

definition update_service_usage :: "ServiceUsage \<Rightarrow> app_state \<Rightarrow> pyval outcome" where
  "update_service_usage updated_usage s =
     (let new_usage = ServiceUsage_dict updated_usage;
          s1 = s\<lparr>service_usage := new_usage,
                 trace := trace s @ [Replaced ''service_usage'' new_usage]\<rparr>
      in case broadcast (PDict [(''type'', PStr ''service_usage''),
                                (''data'', service_usage s1)]) s1 of
           (Inl e, s2) \<Rightarrow> (Inl e, s2)
         | (Inr _, s2) \<Rightarrow>
             (Inr (PDict [(''message'', PStr ''Service usage updated successfully'')]), s2))"

section \<open>Theorems\<close>

subsection \<open>The broadcast loop in closed form\<close>

text \<open>
  The loop delivers to the entries before the first socket whose transport is gone, and
  raises exactly when there is such a socket.
\<close>

lemma broadcast_loop_eq:
  "broadcast_loop cs message s =
     (if list_all (\<lambda>c. c \<notin> set (closed s)) cs then Inr () else Inl TransportError,
      s\<lparr>trace := trace s @
          map (\<lambda>c. Sent c message) (takeWhile (\<lambda>c. c \<notin> set (closed s)) cs)\<rparr>)"
  by (induction cs arbitrary: s) (simp_all add: send_json_def)


lemma update_cloud_costs_eq:
  "update_cloud_costs W s =
     (if list_all (\<lambda>c. c \<notin> set (closed s)) (active_connections s)
      then Inr (PDict [(''message'', PStr ''Cloud costs updated successfully'')])
      else Inl TransportError,
      s\<lparr>cloud_costs := map CloudCost_dict W,
        trace := trace s @
          Replaced ''cloud_costs'' (PList (map CloudCost_dict W)) #
          map (\<lambda>c. Sent c (PDict [(''type'', PStr ''cloud_costs''),
                                   (''data'', PList (map CloudCost_dict W))]))
            (takeWhile (\<lambda>c. c \<notin> set (closed s)) (active_connections s))\<rparr>)"
  by (simp add: update_cloud_costs_def broadcast_def broadcast_loop_eq Let_def)

lemma update_service_usage_eq:
  "update_service_usage u s =
     (if list_all (\<lambda>c. c \<notin> set (closed s)) (active_connections s)
      then Inr (PDict [(''message'', PStr ''Service usage updated successfully'')])
      else Inl TransportError,
      s\<lparr>service_usage := ServiceUsage_dict u,
        trace := trace s @
          Replaced ''service_usage'' (ServiceUsage_dict u) #
          map (\<lambda>c. Sent c (PDict [(''type'', PStr ''service_usage''),
                                   (''data'', ServiceUsage_dict u)]))
            (takeWhile (\<lambda>c. c \<notin> set (closed s)) (active_connections s))\<rparr>)"
  by (simp add: update_service_usage_def broadcast_def broadcast_loop_eq Let_def)



subsection \<open>Broadcast\<close>

text \<open>
  C1, as the code has it: \<open>broadcast\<close> sends the message to the registered channels in
  list order.  When every send succeeds, all of them receive it and \<open>broadcast\<close>
  returns.  When a send fails, the channels before the failing one have received the
  message, the failing one and all channels after it receive nothing, and the failure is
  raised to the caller of \<open>broadcast\<close>.
\<close>

theorem broadcast_stops_at_first_failure:
  "broadcast message s =
     (if list_all (\<lambda>c. c \<notin> set (closed s)) (active_connections s) then Inr ()
      else Inl TransportError,
      s\<lparr>trace := trace s @
          map (\<lambda>c. Sent c message)
            (takeWhile (\<lambda>c. c \<notin> set (closed s)) (active_connections s))\<rparr>)"
  by (simp add: broadcast_def broadcast_loop_eq)

theorem broadcast_stops_at_first_failure_witness:
  "broadcast (PStr ''m'') (initial_state\<lparr>active_connections := [1, 2, 3], closed := [2]\<rparr>) =
     (Inl TransportError,
      initial_state\<lparr>active_connections := [1, 2, 3], closed := [2],
        trace := [Sent 1 (PStr ''m'')]\<rparr>)"
  using broadcast_stops_at_first_failure
    [of "PStr ''m''" "initial_state\<lparr>active_connections := [1, 2, 3], closed := [2]\<rparr>"]
  by (simp add: initial_state_def)

text \<open>
  C1 as stated fails: with the channels 1 and 2 registered and the transport of channel 1
  gone, \<open>broadcast\<close> raises to its caller and channel 2 is sent nothing.
\<close>

theorem broadcast_failure_counterexample:
  "fst (broadcast (PStr ''m'') (initial_state\<lparr>active_connections := [1, 2], closed := [1]\<rparr>))
     = Inl TransportError \<and>
   Sent 2 (PStr ''m'') \<notin> set (trace (snd (broadcast (PStr ''m'')
     (initial_state\<lparr>active_connections := [1, 2], closed := [1]\<rparr>))))"
  by (simp add: broadcast_def send_json_def initial_state_def)

subsection \<open>Unregistering\<close>

text \<open>
  C2, as the code has it: unregistering a channel that is not in the active set leaves
  the whole state, the registry included, unchanged, and raises ValueError to the caller
  of \<open>disconnect\<close>.
\<close>

theorem disconnect_absent_raises:
  "websocket \<notin> set (active_connections s) \<Longrightarrow> disconnect websocket s = (Inl ValueError, s)"
  by (simp add: disconnect_def)

theorem disconnect_absent_raises_witness:
  "1 \<notin> set (active_connections initial_state) \<and>
   disconnect 1 initial_state = (Inl ValueError, initial_state)"
  using disconnect_absent_raises [of 1 initial_state]
  by (simp add: initial_state_def)

text \<open>
  C2 as stated fails: a channel is registered and unregistered, and the second
  unregistering raises ValueError.
\<close>

theorem disconnect_twice_counterexample:
  "fst (connect 1 initial_state) = Inr () \<and>
   fst (disconnect 1 (snd (connect 1 initial_state))) = Inr () \<and>
   fst (disconnect 1 (snd (disconnect 1 (snd (connect 1 initial_state))))) = Inl ValueError"
  by (simp add: connect_def accept_def disconnect_def initial_state_def)

subsection \<open>The filtered read\<close>

text \<open>
  A lower bound after the year 1900 excludes every record, whatever the store holds.
\<close>

lemma filter_costs_after_1900:
  "1900 < year start \<Longrightarrow> filter_costs start end' costs = Inr kept \<Longrightarrow> kept = []"
proof (induction costs arbitrary: kept)
  case Nil
  then show ?case by simp
next
  case (Cons c costs)
  from Cons.prems(2) obtain v d rest where
    v: "subscript c ''month'' = Inr v" and d: "strptime_B v = Inr d"
    and rest: "filter_costs start end' costs = Inr rest"
    and kept: "kept = (if datetime_le start d \<and> datetime_le d end' then c # rest else rest)"
    by (auto split: sum.splits)
  from d have "year d = 1900"
    by (cases v) (auto split: option.splits)
  with Cons.prems(1) have "\<not> datetime_le start d" by (simp add: datetime_le_def)
  moreover from Cons.IH [OF Cons.prems(1) rest] have "rest = []" .
  ultimately show ?case using kept by simp
qed

text \<open>
  C3 at the input of the specification: with start_date 2023-02-01 and end_date
  2023-04-30 the sample data is filtered to the empty list, since every month name is
  parsed to a date of the year 1900 and the bounds are compared with their year.
\<close>

theorem filtered_costs_2023_empty:
  "get_filtered_costs ''2023-02-01'' ''2023-04-30'' initial_state =
     (Inr (PList []), initial_state)"
  by code_simp

subsection \<open>The write endpoints\<close>

text \<open>
  C4: for every list W of CloudCost records, a GET /cloud-costs right after
  PUT /update-cloud-costs with W returns exactly the records of W, each with its month
  and its cost, in the order of W, whatever the state before and whatever the outcome of
  the broadcast.
\<close>

theorem update_then_get_cloud_costs:
  "fst (get_cloud_costs (snd (update_cloud_costs W s))) =
     Inr (PList (map (\<lambda>c. PDict [(''month'', PStr (month c)), (''cost'', PFloat (cost c))]) W))"
  by (simp add: get_cloud_costs_def update_cloud_costs_eq CloudCost_dict_def)

text \<open>
  C5: one invocation of either write endpoint adds to the history first the replacement
  of its dataset and then the messages of the broadcast, and every message sent carries
  the value the store holds from then on.
\<close>

theorem write_precedes_broadcast:
  "(let s' = snd (update_cloud_costs W s)
    in cloud_costs s' = map CloudCost_dict W \<and>
       trace s' = trace s @
         Replaced ''cloud_costs'' (PList (cloud_costs s')) #
         map (\<lambda>c. Sent c (PDict [(''type'', PStr ''cloud_costs''),
                                  (''data'', PList (cloud_costs s'))]))
           (takeWhile (\<lambda>c. c \<notin> set (closed s)) (active_connections s))) \<and>
   (let s' = snd (update_service_usage u s)
    in service_usage s' = ServiceUsage_dict u \<and>
       trace s' = trace s @
         Replaced ''service_usage'' (service_usage s') #
         map (\<lambda>c. Sent c (PDict [(''type'', PStr ''service_usage''),
                                  (''data'', service_usage s')]))
           (takeWhile (\<lambda>c. c \<notin> set (closed s)) (active_connections s)))"
  by (simp add: update_cloud_costs_eq update_service_usage_eq Let_def)

text \<open>
  C8: a ServiceUsage payload whose labels and data differ in length is not rejected by
  PUT /update-service-usage: it is stored as it is and broadcast, and the only exception
  the handler can raise is that of a failed send.
\<close>

theorem unequal_lengths_stored:
  "length (labels u) \<noteq> length (data u) \<Longrightarrow>
   fst (update_service_usage u s) =
     (if list_all (\<lambda>c. c \<notin> set (closed s)) (active_connections s)
      then Inr (PDict [(''message'', PStr ''Service usage updated successfully'')])
      else Inl TransportError) \<and>
   service_usage (snd (update_service_usage u s)) =
     PDict [(''labels'', PList (map PStr (labels u))), (''data'', PList (map PFloat (data u)))] \<and>
   trace (snd (update_service_usage u s)) = trace s @
     Replaced ''service_usage'' (ServiceUsage_dict u) #
     map (\<lambda>c. Sent c (PDict [(''type'', PStr ''service_usage''), (''data'', ServiceUsage_dict u)]))
       (takeWhile (\<lambda>c. c \<notin> set (closed s)) (active_connections s))"
  by (simp add: update_service_usage_eq ServiceUsage_dict_def)

theorem unequal_lengths_stored_witness:
  "length [''a'', ''b''] \<noteq> length [Finite False 3 0] \<and>
   fst (update_service_usage \<lparr>labels = [''a'', ''b''], data = [Finite False 3 0]\<rparr>
          (initial_state\<lparr>active_connections := [4]\<rparr>)) =
     Inr (PDict [(''message'', PStr ''Service usage updated successfully'')]) \<and>
   service_usage (snd (update_service_usage \<lparr>labels = [''a'', ''b''], data = [Finite False 3 0]\<rparr>
          (initial_state\<lparr>active_connections := [4]\<rparr>))) =
     PDict [(''labels'', PList [PStr ''a'', PStr ''b'']),
            (''data'', PList [PFloat (Finite False 3 0)])] \<and>
   trace (snd (update_service_usage \<lparr>labels = [''a'', ''b''], data = [Finite False 3 0]\<rparr>
          (initial_state\<lparr>active_connections := [4]\<rparr>))) =
     [Replaced ''service_usage''
        (PDict [(''labels'', PList [PStr ''a'', PStr ''b'']),
                (''data'', PList [PFloat (Finite False 3 0)])]),
      Sent 4 (PDict [(''type'', PStr ''service_usage''),
        (''data'', PDict [(''labels'', PList [PStr ''a'', PStr ''b'']),
                          (''data'', PList [PFloat (Finite False 3 0)])])])]"
  using unequal_lengths_stored
    [of "\<lparr>labels = [''a'', ''b''], data = [Finite False 3 0]\<rparr>"
        "initial_state\<lparr>active_connections := [4]\<rparr>"]
  by (simp add: initial_state_def ServiceUsage_dict_def)

text \<open>
  C9: each write endpoint changes its own dataset only.  PUT /update-cloud-costs leaves
  service_usage, daily_costs, resources and the registry as they were, and
  PUT /update-service-usage leaves cloud_costs, daily_costs, resources and the registry
  as they were.
\<close>

theorem writes_frame:
  "(let s' = snd (update_cloud_costs W s)
    in service_usage s' = service_usage s \<and> daily_costs s' = daily_costs s \<and>
       resources s' = resources s \<and> active_connections s' = active_connections s) \<and>
   (let s' = snd (update_service_usage u s)
    in cloud_costs s' = cloud_costs s \<and> daily_costs s' = daily_costs s \<and>
       resources s' = resources s \<and> active_connections s' = active_connections s)"
  by (simp add: update_cloud_costs_eq update_service_usage_eq Let_def)

subsection \<open>Duplicate registrations\<close>




subsection \<open>Rounding to binary64\<close>

text \<open>
  \<open>bit_length\<close> is the position of the leading bit; the conversion of an integer
  overflows exactly from \<open>2^1024 - 2^970\<close> on, the midpoint between the largest float
  and \<open>2^1024\<close>; a number that fits is not rounded.
\<close>

lemma bit_length_less: "n < 2 ^ bit_length n"
proof (induction n rule: bit_length.induct)
  case (1 n)
  show ?case
  proof (cases "n = 0")
    case True
    then show ?thesis by (simp add: bit_length.simps)
  next
    case False
    with 1 have "n div 2 < 2 ^ bit_length (n div 2)" by simp
    then have "n < 2 * 2 ^ bit_length (n div 2)" by linarith
    with False show ?thesis by (subst bit_length.simps) simp
  qed
qed

lemma bit_length_ge: "0 < n \<Longrightarrow> 2 ^ (bit_length n - 1) \<le> n"
proof (induction n rule: bit_length.induct)
  case (1 n)
  show ?case
  proof (cases "n div 2 = 0")
    case True
    with 1(2) have "n = 1" by linarith
    then show ?thesis by (simp add: bit_length.simps)
  next
    case False
    with 1 have ih: "2 ^ (bit_length (n div 2) - 1) \<le> n div 2" by simp
    from False have "0 < bit_length (n div 2)" by (subst bit_length.simps) simp
    then have "(2::nat) ^ bit_length (n div 2) = 2 * 2 ^ (bit_length (n div 2) - 1)"
      by (cases "bit_length (n div 2)") simp_all
    with ih have "2 ^ bit_length (n div 2) \<le> n" by linarith
    with 1(2) show ?thesis by (subst bit_length.simps) simp
  qed
qed

lemma bit_length_le_iff: "bit_length n \<le> w \<longleftrightarrow> n < 2 ^ w"
proof
  assume "bit_length n \<le> w"
  then have "(2::nat) ^ bit_length n \<le> 2 ^ w" by (simp add: power_increasing)
  with bit_length_less [of n] show "n < 2 ^ w" by linarith
next
  assume lt: "n < 2 ^ w"
  show "bit_length n \<le> w"
  proof (cases "n = 0")
    case True
    then show ?thesis by (simp add: bit_length.simps)
  next
    case False
    then have "2 ^ (bit_length n - 1) \<le> n" using bit_length_ge [of n] by simp
    with lt have "(2::nat) ^ (bit_length n - 1) < 2 ^ w" by linarith
    then have "bit_length n - 1 < w" by (simp add: power_strict_increasing_iff)
    then show ?thesis by linarith
  qed
qed

lemma threshold_split: "(2::nat) ^ 1024 - 2 ^ 970 = (2 ^ 53 - 1) * 2 ^ 971 + 2 ^ 970"
  by simp

lemma threshold_lower: "(2::nat) ^ 1023 \<le> 2 ^ 1024 - 2 ^ 970"
  by simp

lemma round_binary64_inf_iff:
  "(\<exists>t. round_binary64 sg m 0 = Infinity t) \<longleftrightarrow>
     (if bit_length m \<le> 53 then m \<noteq> 0 \<and> 1024 < bit_length m
      else round_shift m (bit_length m - 53) \<noteq> 0 \<and>
           1024 < bit_length (round_shift m (bit_length m - 53)) + (bit_length m - 53))"
proof (cases "bit_length m \<le> 53")
  case True
  then have k: "\<not> 0 < max (int (bit_length m) - 53) (- 1074 - 0)" by simp
  show ?thesis
    unfolding round_binary64_def Let_def if_not_P [OF k]
    using True by (simp split: prod.splits)
next
  case False
  then have k: "0 < max (int (bit_length m) - 53) (- 1074 - 0)"
    and k': "max (int (bit_length m) - 53) (- 1074 - 0) = int (bit_length m - 53)"
    by simp_all
  show ?thesis
    unfolding round_binary64_def Let_def if_P [OF k] k' nat_int
    using False by (simp split: prod.splits) linarith?
qed

lemma edge_arith:
  fixes m q r P H Q :: nat
  assumes "m = q * P + r" "r < P" "q < Q" "P = 2 * H"
  shows "(q = Q - 1 \<and> H \<le> r) \<longleftrightarrow> (Q - 1) * P + H \<le> m"
proof (cases "q = Q - 1")
  case True
  with assms show ?thesis by simp
next
  case False
  with assms(3) have "q + 1 \<le> Q - 1" by linarith
  then have "(q + 1) * P \<le> (Q - 1) * P" by (rule mult_le_mono1)
  moreover from assms have "m < (q + 1) * P" by simp
  ultimately have "m < (Q - 1) * P + H" by linarith
  with False show ?thesis by simp
qed

lemma round_shift_cases:
  "0 < k \<Longrightarrow> round_shift m k = m div 2 ^ k \<or> round_shift m k = m div 2 ^ k + 1"
  by (simp add: round_shift_def Let_def)


lemma bit_length_0: "bit_length 0 = 0"
  by (simp add: bit_length.simps)

lemma round_binary64_overflow_iff:
  "(\<exists>t. round_binary64 sg m 0 = Infinity t) \<longleftrightarrow> 2 ^ 1024 - 2 ^ 970 \<le> m"
proof (cases "bit_length m \<le> 53")
  case True
  then have "m < 2 ^ 53" by (simp add: bit_length_le_iff)
  also have "(2::nat) ^ 53 \<le> 2 ^ 1023" by (rule power_increasing) simp_all
  finally have "m < 2 ^ 1024 - 2 ^ 970" using threshold_lower by linarith
  with True show ?thesis by (simp add: round_binary64_inf_iff)
next
  case False
  define b where "b = bit_length m"
  define k where "k = b - 53"
  define q where "q = m div 2 ^ k"
  define m' where "m' = round_shift m k"
  from False have b: "b = k + 53" and k: "0 < k" by (simp_all add: b_def k_def)
  from False have m0: "0 < m" by (cases "m = 0") (simp_all add: bit_length_0)
  have "m < 2 ^ b" unfolding b_def by (rule bit_length_less)
  then have "m < 2 ^ 53 * 2 ^ k" by (simp add: b power_add mult.commute)
  then have qub: "q < 2 ^ 53" unfolding q_def by (rule less_mult_imp_div_less)
  have "2 ^ (b - 1) \<le> m" unfolding b_def using m0 by (rule bit_length_ge)
  moreover have "b - 1 = 52 + k" using b by simp
  ultimately have "2 ^ 52 * 2 ^ k \<le> m" by (simp add: power_add)
  then have "(2 ^ 52 * 2 ^ k) div 2 ^ k \<le> m div 2 ^ k" by (rule div_le_mono)
  then have qlb: "2 ^ 52 \<le> q" by (simp add: q_def)
  have m'q: "m' = q \<or> m' = q + 1"
    unfolding m'_def q_def using k by (rule round_shift_cases)
  with qlb have m'lb: "2 ^ 52 \<le> m'" by auto
  from m'q qub have m'ub: "m' \<le> 2 ^ 53" by auto
  from m'lb have m'0: "m' \<noteq> 0" by simp
  from m'lb have bl_lb: "53 \<le> bit_length m'"
    using bit_length_le_iff [of m' 52] by simp
  from m'ub have "m' < 2 ^ 54" by simp
  then have bl_ub: "bit_length m' \<le> 54" by (simp add: bit_length_le_iff)
  have lhs: "(\<exists>t. round_binary64 sg m 0 = Infinity t) \<longleftrightarrow> 1024 < bit_length m' + k"
    using False m'0 by (simp add: round_binary64_inf_iff m'_def k_def b_def)
  consider (mid) "b \<le> 1023" | (edge) "b = 1024" | (big) "1025 \<le> b" by linarith
  then show ?thesis
  proof cases
    case mid
    then have "m < 2 ^ 1023" unfolding b_def by (simp add: bit_length_le_iff)
    then have "m < 2 ^ 1024 - 2 ^ 970" using threshold_lower by linarith
    moreover from mid b bl_ub have "\<not> 1024 < bit_length m' + k" by simp
    ultimately show ?thesis by (simp add: lhs)
  next
    case big
    then have "\<not> bit_length m \<le> 1024" by (simp add: b_def)
    then have "2 ^ 1024 \<le> m" by (simp add: bit_length_le_iff)
    then have "2 ^ 1024 - 2 ^ 970 \<le> m" by linarith
    moreover from big b bl_lb have "1024 < bit_length m' + k" by simp
    ultimately show ?thesis by (simp add: lhs)
  next
    case edge
    with b have k971: "k = 971" by simp
    define P H Q :: nat where "P = 2 ^ 971" and "H = 2 ^ 970" and "Q = 2 ^ 53"
    have PH: "P = 2 * H" by (simp add: P_def H_def)
    define r where "r = m mod P"
    have mqr: "m = q * P + r" by (simp add: q_def r_def k971 P_def)
    have rP: "r < P" by (simp add: r_def P_def)
    have qQ: "q < Q" using qub by (simp add: Q_def)
    have oddq: "q = Q - 1 \<Longrightarrow> odd q" by (simp add: Q_def)
    have m'_eq: "m' = (if H < r \<or> (r = H \<and> odd q) then q + 1 else q)"
      by (simp add: m'_def round_shift_def Let_def k971 q_def r_def P_def H_def)
    have "1024 < bit_length m' + k \<longleftrightarrow> \<not> bit_length m' \<le> 53"
      using k971 by auto
    also have "\<dots> \<longleftrightarrow> Q \<le> m'" by (simp add: bit_length_le_iff Q_def not_less)
    also have "\<dots> \<longleftrightarrow> q = Q - 1 \<and> H \<le> r"
      using qQ oddq by (auto simp add: m'_eq)
    also have "\<dots> \<longleftrightarrow> (Q - 1) * P + H \<le> m"
      using mqr rP qQ PH by (rule edge_arith)
    also have "(Q - 1) * P + H = 2 ^ 1024 - 2 ^ 970"
      unfolding P_def H_def Q_def by (rule threshold_split [symmetric])
    finally show ?thesis by (simp add: lhs)
  qed
qed

lemma float_of_int_overflow_iff:
  "float_of_int i = Inl OverflowError \<longleftrightarrow> 2 ^ 1024 - 2 ^ 970 \<le> \<bar>i\<bar>"
proof -
  have "float_of_int i = Inl OverflowError \<longleftrightarrow>
          (\<exists>t. round_binary64 (i < 0) (nat \<bar>i\<bar>) 0 = Infinity t)"
    by (auto simp add: float_of_int_def split: pyfloat.splits)
  also have "\<dots> \<longleftrightarrow> 2 ^ 1024 - 2 ^ 970 \<le> nat \<bar>i\<bar>"
    by (rule round_binary64_overflow_iff)
  also have "\<dots> \<longleftrightarrow> int (2 ^ 1024 - 2 ^ 970) \<le> \<bar>i\<bar>"
    by linarith
  also have "int (2 ^ 1024 - 2 ^ 970) = 2 ^ 1024 - 2 ^ 970"
    by (simp add: of_nat_diff)
  finally show ?thesis .
qed

lemma normal_form_value:
  "0 < m \<Longrightarrow> normal_form m e = (m', e') \<Longrightarrow>
   \<exists>j. m = m' * 2 ^ j \<and> e' = e + int j \<and> odd m'"
proof (induction m e rule: normal_form.induct)
  case (1 m e)
  show ?case
  proof (cases "even m")
    case True
    with 1(2) have pos: "0 < m div 2" by (auto elim: evenE)
    from True 1(2,3) have "normal_form (m div 2) (e + 1) = (m', e')"
      by (subst (asm) normal_form.simps) simp
    with 1(1) True 1(2) pos obtain j where
      j: "m div 2 = m' * 2 ^ j" "e' = e + 1 + int j" "odd m'" by auto
    from True j(1) have "m = m' * 2 ^ Suc j" by (auto elim: evenE)
    with j(2,3) show ?thesis by (intro exI [of _ "Suc j"]) simp
  next
    case False
    with 1(2,3) have "m' = m" "e' = e" by (subst (asm) normal_form.simps; simp)+
    with False show ?thesis by (intro exI [of _ 0]) simp
  qed
qed

lemma round_binary64_exact:
  assumes "bit_length m \<le> 53" and "- 1074 \<le> e" and "int (bit_length m) + e \<le> 1024"
  shows "round_binary64 sg m e = (case normal_form m e of (m', e') \<Rightarrow> Finite sg m' e')"
proof -
  from assms(1,2) have k: "\<not> 0 < max (int (bit_length m) - 53) (- 1074 - e)" by simp
  have z: "m = 0 \<Longrightarrow> normal_form m e = (0, 0)" by (simp add: normal_form.simps)
  show ?thesis
    unfolding round_binary64_def Let_def if_not_P [OF k]
    using assms(3) z by (auto split: prod.splits)
qed

lemmas float_eval = bit_length.simps normal_form.simps round_shift_def round_binary64_def
  float_of_int_def Let_def

lemma float_of_int_value:
  "float_of_int i \<noteq> Inl OverflowError \<Longrightarrow>
   float_of_int i = Inr (round_binary64 (i < 0) (nat \<bar>i\<bar>) 0)"
  by (simp add: float_of_int_def split: pyfloat.splits)

lemma float_mul_three_tenths:
  "float_mul (Finite False 3 0) (Finite False 3602879701896397 (- 55)) =
     Finite False 1351079888211149 (- 52)"
  by (simp add: float_eval)

lemma float_of_int_ties_to_even:
  "float_of_int (2 ^ 53 + 1) = Inr (Finite False 1 53) \<and>
   float_of_int (2 ^ 53 + 3) = Inr (Finite False 2251799813685249 2)"
  by (simp add: float_eval)

subsection \<open>The compute endpoint\<close>

text \<open>
  The floats of the example: 0.1 is \<open>3602879701896397 * 2^-55\<close> and 360.0 is
  \<open>45 * 2^3\<close>.
\<close>

lemma estimate_cost_example:
  "estimate_cost \<lparr>instanceCount = 5, hoursPerDay = 24, daysPerMonth = 30,
       costPerHour = Finite False 3602879701896397 (- 55)\<rparr> s =
     (Inr (PDict [(''estimatedMonthlyCost'', PFloat (Finite False 45 3))]), s)"
  by (simp add: estimate_cost_def float_eval)

text \<open>
  C6, as the code has it: with \<open>n = instanceCount * hoursPerDay * daysPerMonth\<close>, the
  compute endpoint returns \<open>{estimatedMonthlyCost: float(n) * costPerHour}\<close> when
  \<open>|n| < 2^1024 - 2^970\<close>, and raises OverflowError otherwise, \<open>n\<close> being too large
  for a float.  It leaves the state as it is and its outcome does not depend on the
  state.  For \<open>{5, 24, 30, 0.1}\<close> it returns \<open>{estimatedMonthlyCost: 360.0}\<close>.
\<close>

theorem estimate_cost_product:
  "estimate_cost params s =
     (if 2 ^ 1024 - 2 ^ 970 \<le> \<bar>instanceCount params * hoursPerDay params * daysPerMonth params\<bar>
      then Inl OverflowError
      else Inr (PDict [(''estimatedMonthlyCost'',
             PFloat (float_mul
               (round_binary64
                  (instanceCount params * hoursPerDay params * daysPerMonth params < 0)
                  (nat \<bar>instanceCount params * hoursPerDay params * daysPerMonth params\<bar>) 0)
               (costPerHour params)))]),
      s) \<and>
   fst (estimate_cost params s') = fst (estimate_cost params s) \<and>
   estimate_cost \<lparr>instanceCount = 5, hoursPerDay = 24, daysPerMonth = 30,
       costPerHour = Finite False 3602879701896397 (- 55)\<rparr> s =
     (Inr (PDict [(''estimatedMonthlyCost'', PFloat (Finite False 45 3))]), s)"
proof -
  define n where "n = instanceCount params * hoursPerDay params * daysPerMonth params"
  have eq: "estimate_cost params t =
      (if 2 ^ 1024 - 2 ^ 970 \<le> \<bar>n\<bar> then Inl OverflowError
       else Inr (PDict [(''estimatedMonthlyCost'',
              PFloat (float_mul (round_binary64 (n < 0) (nat \<bar>n\<bar>) 0) (costPerHour params)))]),
       t)" for t
  proof (cases "2 ^ 1024 - 2 ^ 970 \<le> \<bar>n\<bar>")
    case True
    then have "float_of_int n = Inl OverflowError"
      using float_of_int_overflow_iff [of n] by blast
    with True show ?thesis by (simp add: estimate_cost_def n_def)
  next
    case False
    then have "float_of_int n \<noteq> Inl OverflowError"
      using float_of_int_overflow_iff [of n] by blast
    then have "float_of_int n = Inr (round_binary64 (n < 0) (nat \<bar>n\<bar>) 0)"
      by (rule float_of_int_value)
    with False show ?thesis by (simp add: estimate_cost_def n_def Let_def)
  qed
  show ?thesis
    unfolding n_def [symmetric] eq by (simp add: estimate_cost_example)
qed

theorem estimate_cost_product_witness:
  "estimate_cost \<lparr>instanceCount = 2, hoursPerDay = 3, daysPerMonth = 4,
       costPerHour = Finite False 3 (- 1)\<rparr> initial_state =
     (Inr (PDict [(''estimatedMonthlyCost'', PFloat (Finite False 9 2))]), initial_state) \<and>
   estimate_cost \<lparr>instanceCount = - (2 ^ 1024), hoursPerDay = 1, daysPerMonth = 1,
       costPerHour = Finite False 3 (- 1)\<rparr> initial_state = (Inl OverflowError, initial_state)"
proof -
  have v: "float_mul (round_binary64 False 24 0) (Finite False 3 (- 1)) = Finite False 9 2"
    by (simp add: float_eval)
  show ?thesis
    using estimate_cost_product
      [of "\<lparr>instanceCount = 2, hoursPerDay = 3, daysPerMonth = 4,
             costPerHour = Finite False 3 (- 1)\<rparr>" initial_state initial_state]
      estimate_cost_product
      [of "\<lparr>instanceCount = - (2 ^ 1024), hoursPerDay = 1, daysPerMonth = 1,
             costPerHour = Finite False 3 (- 1)\<rparr>" initial_state initial_state]
    by (simp add: v)
qed

text \<open>
  C6 as stated fails: for the well-typed input \<open>{2^1024, 1, 1, 1.0}\<close> the endpoint
  returns nothing; the multiplication by the float raises OverflowError.
\<close>

theorem estimate_cost_overflow_counterexample:
  "fst (estimate_cost \<lparr>instanceCount = 2 ^ 1024, hoursPerDay = 1, daysPerMonth = 1,
          costPerHour = Finite False 1 0\<rparr> initial_state) = Inl OverflowError"
proof -
  have "float_of_int (2 ^ 1024) = Inl OverflowError"
    by (simp only: float_of_int_overflow_iff) simp
  then show ?thesis by (simp add: estimate_cost_def)
qed

subsection \<open>The sample data\<close>


text \<open>
  C7: on a freshly started process, before any write, GET /cloud-costs returns exactly
  seven records, January to July in that order, with the costs 65, 59, 80, 81, 56, 55, 40.
\<close>

theorem get_cloud_costs_initial:
  "fst (get_cloud_costs initial_state) =
     Inr (PList (map (\<lambda>(m, c). PDict [(''month'', PStr m), (''cost'', PInt c)])
       [(''January'', 65), (''February'', 59), (''March'', 80), (''April'', 81),
        (''May'', 56), (''June'', 55), (''July'', 40)]))"
  by (simp add: get_cloud_costs_def initial_state_def sample_cloud_costs_def)

end
